theory Spec2Isabelle
  imports Main "HOL-Library.Word" "HOL-Library.Sublist"
begin

section \<open>Workspace Optimizer Bot: the four-agent report pipeline\<close>

text \<open>
  The program (\<^verbatim>\<open>workspace-optimizer-bot.py\<close>) is a Streamlit page. Its function
  \<^verbatim>\<open>generate_workspace_report\<close> writes the uploaded photo to a temporary file, runs four
  language-model agents one after the other and concatenates their answers into a
  markdown report; \<^verbatim>\<open>main\<close> validates the form before it calls that function.

  Conventions of the embedding:
  \<^item> a Python \<^verbatim>\<open>str\<close> is a \<^typ>\<open>string\<close> holding its UTF-8 bytes, so a character outside
    ASCII is written as its bytes (\<open>CHR 0xF0\<close> ...); concatenation and containment of
    strings commute with that encoding;
  \<^item> the agents and the temporary-file name are outside the program: they are the
    \<open>world\<close>, a parameter of every run. An agent answers with a text or raises;
    its answer may depend on everything it was sent so far;
  \<^item> every \<^verbatim>\<open>agent.run\<close> is recorded, with its answer, in the field \<open>calls\<close> of the
    machine state, files written in \<open>files\<close>, Streamlit output in \<open>ui\<close>;
  \<^item> an exception is a value \<open>Inl e\<close>; nothing in the program catches one.
\<close>

subsection \<open>Data\<close>

type_synonym bytes = "8 word list"
type_synonym path = string

datatype error =
    AttributeError
  | AgentError string

text \<open>The dictionary returned by \<^verbatim>\<open>render_workspace_setup_preferences\<close> (lines 63-67).
  \<open>uploaded_image\<close> is \<open>None\<close> when no file was uploaded, else the file's bytes
  (what \<^verbatim>\<open>getvalue()\<close> returns).\<close>

record user_workspace_preferences =
  uploaded_image :: "bytes option"
  focus_area :: string
  improvement_goal :: string

text \<open>\<^verbatim>\<open>st.session_state\<close>: an attribute that was never assigned is \<open>None\<close>
  (\<^verbatim>\<open>hasattr\<close> is false, reading it raises \<^verbatim>\<open>AttributeError\<close>).\<close>

record session_state =
  openai_api_key :: "string option"
  serp_api_key :: "string option"
  workspace_report :: "string option"
  session_uploaded_image :: "bytes option"

datatype agent = PostureAnalyzer | RiskEvaluator | FixAdvisor | ProductFinder

fun agent_name :: "agent \<Rightarrow> string" where
  "agent_name PostureAnalyzer = ''Posture & Setup Analyzer''"
| "agent_name RiskEvaluator = ''Ergonomic Risk Evaluator''"
| "agent_name FixAdvisor = ''Fix Advisor''"
| "agent_name ProductFinder = ''Workspace Product Finder''"

text \<open>What one \<^verbatim>\<open>agent.run\<close> hands to the outside: which agent (its constant role,
  description and instructions are fixed by that), the key of its model, the key of its
  search tool if it has one, the message and the paths of the attached images.\<close>

record agent_call =
  agent :: agent
  model_api_key :: string
  search_api_key :: "string option"
  message :: string
  images :: "path list"

type_synonym invocation = "agent_call \<times> (error + string)"

record world =
  tmp_stem :: path
  respond :: "invocation list \<Rightarrow> agent_call \<Rightarrow> error + string"

datatype ui_event =
    StSidebarSuccess string
  | StError string
  | StMarkdown string
  | StImage bytes
  | StDownloadButton string string string string

record machine =
  session :: session_state
  prefs :: user_workspace_preferences
  files :: "(path \<times> bytes) list"
  calls :: "invocation list"
  ui :: "ui_event list"

subsection \<open>The form (lines 11-67)\<close>

datatype focus_option = PostureCorrection | DeskOrganization | FullErgonomicAssessment

datatype goal_option = ReduceStrain | BoostProductivity | CreateACalmerSpace | MaximizeSpaceEfficiency

fun focus_label :: "focus_option \<Rightarrow> string" where
  "focus_label PostureCorrection = ''Posture Correction''"
| "focus_label DeskOrganization = ''Desk Organization''"
| "focus_label FullErgonomicAssessment = ''Full Ergonomic Assessment''"

fun goal_label :: "goal_option \<Rightarrow> string" where
  "goal_label ReduceStrain = ''Reduce Strain''"
| "goal_label BoostProductivity = ''Boost Productivity''"
| "goal_label CreateACalmerSpace = ''Create a Calmer Space''"
| "goal_label MaximizeSpaceEfficiency = ''Maximize Space Efficiency''"

text \<open>What the user has entered when the script runs.\<close>

record form_input =
  openai_api_key_input :: string
  serp_api_key_input :: string
  file_uploader :: "bytes option"
  focus_selectbox :: focus_option
  goal_selectbox :: goal_option
  button :: bool

definition check_mark :: string where
  "check_mark = [CHR 0xE2, CHR 0x9C, CHR 0x85]"

definition render_sidebar :: "form_input \<Rightarrow> machine \<Rightarrow> machine" where
  "render_sidebar i m0 =
     (let m1 = (if openai_api_key_input i \<noteq> []
                then m0\<lparr>session := (session m0)\<lparr>openai_api_key := Some (openai_api_key_input i)\<rparr>,
                        ui := ui m0 @ [StSidebarSuccess (check_mark @ '' OpenAI API key updated!'')]\<rparr>
                else m0)
      in (if serp_api_key_input i \<noteq> []
          then m1\<lparr>session := (session m1)\<lparr>serp_api_key := Some (serp_api_key_input i)\<rparr>,
                  ui := ui m1 @ [StSidebarSuccess (check_mark @ '' Serp API key updated!'')]\<rparr>
          else m1))"

definition render_workspace_setup_preferences :: "form_input \<Rightarrow> user_workspace_preferences" where
  "render_workspace_setup_preferences i =
     \<lparr>uploaded_image = file_uploader i,
      focus_area = focus_label (focus_selectbox i),
      improvement_goal = goal_label (goal_selectbox i)\<rparr>"

subsection \<open>The pipeline (lines 69-177)\<close>

text \<open>\<^verbatim>\<open>agent.run(...)\<close>: the world answers, the call and its answer are recorded.\<close>

definition run :: "world \<Rightarrow> agent_call \<Rightarrow> machine \<Rightarrow> (error + string) \<times> machine" where
  "run w c m = (respond w (calls m) c, m\<lparr>calls := calls m @ [(c, respond w (calls m) c)]\<rparr>)"

text \<open>The four calls, lines 94-97, 114, 133 and 158, with the agents of lines 80, 101,
  118 and 137.\<close>

definition posture_call :: "string \<Rightarrow> path \<Rightarrow> agent_call" where
  "posture_call key image_path =
     \<lparr>agent = PostureAnalyzer, model_api_key = key, search_api_key = None,
      message = ''Analyze the desk image and report ergonomic issues.'',
      images = [image_path]\<rparr>"

definition risk_call :: "string \<Rightarrow> string \<Rightarrow> agent_call" where
  "risk_call key issue_section =
     \<lparr>agent = RiskEvaluator, model_api_key = key, search_api_key = None,
      message = issue_section, images = []\<rparr>"

definition fix_call :: "string \<Rightarrow> string \<Rightarrow> agent_call" where
  "fix_call key fix_prompt =
     \<lparr>agent = FixAdvisor, model_api_key = key, search_api_key = None,
      message = fix_prompt, images = []\<rparr>"

definition product_call :: "string \<Rightarrow> string \<Rightarrow> string \<Rightarrow> agent_call" where
  "product_call key serp_key fix_prompt =
     \<lparr>agent = ProductFinder, model_api_key = key, search_api_key = Some serp_key,
      message = fix_prompt, images = []\<rparr>"

text \<open>Line 132.\<close>

definition fix_prompt :: "string \<Rightarrow> string \<Rightarrow> string \<Rightarrow> string" where
  "fix_prompt issue_section focus goal =
     issue_section @ ''\<newline>\<newline>Focus: '' @ focus @ ''\<newline>Goal: '' @ goal"

text \<open>Lines 162-165.\<close>

definition summary_comment :: string where
  "summary_comment =
     ''### '' @ [CHR 0xF0, CHR 0x9F, CHR 0x92, CHR 0xAC] @ '' Ergonomic Summary\<newline>\<newline>''
     @ ''> '' @ [CHR 0xE2, CHR 0x80, CHR 0x9C]
     @ ''Your workspace has great potential. With just a few adjustments, you can improve posture, reduce fatigue, and make your setup truly ergonomic.''
     @ [CHR 0xE2, CHR 0x80, CHR 0x9D] @ ''\<newline>''"

text \<open>Lines 168-175.\<close>

definition final_report :: "string \<Rightarrow> string \<Rightarrow> string \<Rightarrow> string \<Rightarrow> string" where
  "final_report issue_section risk_section fix_section product_section =
     ''## '' @ [CHR 0xF0, CHR 0x9F, CHR 0xAA, CHR 0x91] @ '' Workspace Optimization Report\<newline>\<newline>''
     @ issue_section @ ''\<newline>\<newline>---\<newline>\<newline>''
     @ risk_section @ ''\<newline>\<newline>---\<newline>\<newline>''
     @ fix_section @ ''\<newline>\<newline>---\<newline>\<newline>''
     @ product_section @ ''\<newline>\<newline>---\<newline>\<newline>''
     @ summary_comment"

text \<open>
  \<^verbatim>\<open>generate_workspace_report\<close>. The temporary file is created (line 72, with
  \<^verbatim>\<open>delete=False\<close>) before \<^verbatim>\<open>uploaded_image.getvalue()\<close> is evaluated; that call raises
  when the image is \<open>None\<close>, and the file stays behind, empty; each agent is built just before it is run and reads its keys from the session
  state then, which raises when the attribute is absent; a raising \<^verbatim>\<open>run\<close> ends the
  function. The dictionary is only read.
\<close>

definition generate_workspace_report :: "world \<Rightarrow> machine \<Rightarrow> (error + string) \<times> machine" where
  "generate_workspace_report w m0 =
     (case uploaded_image (prefs m0) of
        None \<Rightarrow> (Inl AttributeError, m0\<lparr>files := files m0 @ [(tmp_stem w @ ''.jpg'', [])]\<rparr>)
      | Some data \<Rightarrow>
          let image_path = tmp_stem w @ ''.jpg'';
              m1 = m0\<lparr>files := files m0 @ [(image_path, data)]\<rparr>;
              focus = focus_area (prefs m1);
              goal = improvement_goal (prefs m1)
          in (case openai_api_key (session m1) of
                None \<Rightarrow> (Inl AttributeError, m1)
              | Some key1 \<Rightarrow>
          (case run w (posture_call key1 image_path) m1 of
                (Inl e, m2) \<Rightarrow> (Inl e, m2)
              | (Inr issue_section, m2) \<Rightarrow>
          (case openai_api_key (session m2) of
                None \<Rightarrow> (Inl AttributeError, m2)
              | Some key2 \<Rightarrow>
          (case run w (risk_call key2 issue_section) m2 of
                (Inl e, m3) \<Rightarrow> (Inl e, m3)
              | (Inr risk_section, m3) \<Rightarrow>
          (case openai_api_key (session m3) of
                None \<Rightarrow> (Inl AttributeError, m3)
              | Some key3 \<Rightarrow>
          (case run w (fix_call key3 (fix_prompt issue_section focus goal)) m3 of
                (Inl e, m4) \<Rightarrow> (Inl e, m4)
              | (Inr fix_section, m4) \<Rightarrow>
          (case openai_api_key (session m4) of
                None \<Rightarrow> (Inl AttributeError, m4)
              | Some key4 \<Rightarrow>
          (case serp_api_key (session m4) of
                None \<Rightarrow> (Inl AttributeError, m4)
              | Some serp_key \<Rightarrow>
          (case run w (product_call key4 serp_key (fix_prompt issue_section focus goal)) m4 of
                (Inl e, m5) \<Rightarrow> (Inl e, m5)
              | (Inr product_section, m5) \<Rightarrow>
                  (Inr (final_report issue_section risk_section fix_section product_section),
                   m5)))))))))))"

subsection \<open>The submit action and the page (lines 179-243)\<close>

text \<open>The body of \<^verbatim>\<open>if st.button(...)\<close>, lines 215-227.\<close>

definition on_submit :: "world \<Rightarrow> machine \<Rightarrow> (error + unit) \<times> machine" where
  "on_submit w m =
     (if openai_api_key (session m) = None
      then (Inr (), m\<lparr>ui := ui m @ [StError ''Please provide your OpenAI API key in the sidebar.'']\<rparr>)
      else if serp_api_key (session m) = None
      then (Inr (), m\<lparr>ui := ui m @ [StError ''Please provide your SerpAPI key in the sidebar.'']\<rparr>)
      else if uploaded_image (prefs m) = None
      then (Inr (), m\<lparr>ui := ui m @ [StError ''Please upload a workspace photo to proceed.'']\<rparr>)
      else (case generate_workspace_report w m of
              (Inl e, m') \<Rightarrow> (Inl e, m')
            | (Inr report, m') \<Rightarrow>
                (Inr (), m'\<lparr>session := (session m')\<lparr>workspace_report := Some report,
                               session_uploaded_image := uploaded_image (prefs m')\<rparr>\<rparr>)))"

text \<open>Lines 230-243: the stored report is shown again on every run of the script.\<close>

definition display_result :: "machine \<Rightarrow> machine" where
  "display_result m =
     (case (workspace_report (session m), session_uploaded_image (session m)) of
        (Some report, Some img) \<Rightarrow>
          m\<lparr>ui := ui m @
            [StMarkdown (''## '' @ [CHR 0xF0, CHR 0x9F, CHR 0x96, CHR 0xBC, CHR 0xEF, CHR 0xB8, CHR 0x8F]
                         @ '' Uploaded Workspace Photo''),
             StImage img,
             StMarkdown report,
             StMarkdown ''---'',
             StDownloadButton ([CHR 0xF0, CHR 0x9F, CHR 0x93, CHR 0xA5] @ '' Download Workspace Report'')
               report ''workspace_optimization_report.md'' ''text/markdown'']\<rparr>
      | _ \<Rightarrow> m)"

text \<open>\<^verbatim>\<open>main\<close>. The page configuration, the style sheet, the title, the welcome text
  and the spinner are constant decoration: they are not recorded in \<open>ui\<close>.\<close>

definition main :: "world \<Rightarrow> form_input \<Rightarrow> machine \<Rightarrow> (error + unit) \<times> machine" where
  "main w i m0 =
     (let m1 = render_sidebar i m0;
          m2 = m1\<lparr>prefs := render_workspace_setup_preferences i\<rparr>
      in (case (if button i then on_submit w m2 else (Inr (), m2)) of
            (Inl e, m3) \<Rightarrow> (Inl e, m3)
          | (Inr u, m3) \<Rightarrow> (Inr (), display_result m3)))"

subsection \<open>Observations of a run\<close>

text \<open>The invocations a run of \<open>generate_workspace_report\<close> adds to the record, and the
  agents they went to.\<close>

definition invocations :: "world \<Rightarrow> machine \<Rightarrow> invocation list" where
  "invocations w m = drop (length (calls m)) (calls (snd (generate_workspace_report w m)))"



subsection \<open>A concrete world and request\<close>

text \<open>Agents that answer with fixed texts, and a request with both keys and a photo.\<close>

definition stub_respond ::
  "string \<Rightarrow> string \<Rightarrow> string \<Rightarrow> string \<Rightarrow> invocation list \<Rightarrow> agent_call \<Rightarrow> error + string" where
  "stub_respond a b c d h call =
     Inr (case agent call of
            PostureAnalyzer \<Rightarrow> a | RiskEvaluator \<Rightarrow> b | FixAdvisor \<Rightarrow> c | ProductFinder \<Rightarrow> d)"

definition stub_world :: "string \<Rightarrow> string \<Rightarrow> string \<Rightarrow> string \<Rightarrow> world" where
  "stub_world a b c d = \<lparr>tmp_stem = ''/tmp/tmpk3x9'', respond = stub_respond a b c d\<rparr>"

definition stub_session :: session_state where
  "stub_session =
     \<lparr>openai_api_key = Some ''sk-test'', serp_api_key = Some ''serp-test'',
      workspace_report = None, session_uploaded_image = None\<rparr>"

definition stub_prefs :: user_workspace_preferences where
  "stub_prefs =
     \<lparr>uploaded_image = Some [0xFF, 0xD8, 0xFF],
      focus_area = ''Posture Correction'', improvement_goal = ''Reduce Strain''\<rparr>"

definition stub_machine :: machine where
  "stub_machine = \<lparr>session = stub_session, prefs = stub_prefs, files = [], calls = [], ui = []\<rparr>"

definition alt_machine :: machine where
  "alt_machine =
     \<lparr>session = \<lparr>openai_api_key = Some ''sk-other'', serp_api_key = Some ''serp-other'',
                 workspace_report = Some ''old report'', session_uploaded_image = None\<rparr>,
      prefs = \<lparr>uploaded_image = Some [0x89, 0x50],
               focus_area = ''Desk Organization'', improvement_goal = ''Boost Productivity''\<rparr>,
      files = [], calls = [], ui = []\<rparr>"


text \<open>Requests that fail validation: nothing entered, only the model key entered, both
  keys but no photo.\<close>

definition blank_machine :: machine where
  "blank_machine =
     \<lparr>session = \<lparr>openai_api_key = None, serp_api_key = None,
                 workspace_report = None, session_uploaded_image = None\<rparr>,
      prefs = \<lparr>uploaded_image = None,
               focus_area = ''Posture Correction'', improvement_goal = ''Reduce Strain''\<rparr>,
      files = [], calls = [], ui = []\<rparr>"

definition key_only_machine :: machine where
  "key_only_machine =
     blank_machine\<lparr>session := (session blank_machine)\<lparr>openai_api_key := Some ''sk-test''\<rparr>\<rparr>"

definition no_photo_machine :: machine where
  "no_photo_machine = stub_machine\<lparr>prefs := stub_prefs\<lparr>uploaded_image := None\<rparr>\<rparr>"

subsection \<open>Names for the parts of a run\<close>

text \<open>Shorthands used in the statements below: the path of the temporary file, the
  machine after the photo was written, the machine after some invocations were recorded,
  and the first, third and fourth call as functions of what they are built from (the
  second is \<open>risk_call\<close>).\<close>

definition image_path_of :: "world \<Rightarrow> path" where
  "image_path_of w = tmp_stem w @ ''.jpg''"

definition saved :: "world \<Rightarrow> bytes \<Rightarrow> machine \<Rightarrow> machine" where
  "saved w d m = m\<lparr>files := files m @ [(image_path_of w, d)]\<rparr>"

definition recorded :: "invocation list \<Rightarrow> machine \<Rightarrow> machine" where
  "recorded is m = m\<lparr>calls := calls m @ is\<rparr>"

definition call1 :: "world \<Rightarrow> string \<Rightarrow> agent_call" where
  "call1 w k = posture_call k (image_path_of w)"

definition call3 :: "machine \<Rightarrow> string \<Rightarrow> string \<Rightarrow> agent_call" where
  "call3 m k s1 = fix_call k (fix_prompt s1 (focus_area (prefs m)) (improvement_goal (prefs m)))"

definition call4 :: "machine \<Rightarrow> string \<Rightarrow> string \<Rightarrow> string \<Rightarrow> agent_call" where
  "call4 m k sk s1 =
     product_call k sk (fix_prompt s1 (focus_area (prefs m)) (improvement_goal (prefs m)))"

text \<open>The literals of the report, lines 163 and 169-173.\<close>

definition report_header :: string where
  "report_header =
     ''## '' @ [CHR 0xF0, CHR 0x9F, CHR 0xAA, CHR 0x91] @ '' Workspace Optimization Report\<newline>\<newline>''"

definition section_separator :: string where
  "section_separator = ''\<newline>\<newline>---\<newline>\<newline>''"

definition closing_heading :: string where
  "closing_heading = ''### '' @ [CHR 0xF0, CHR 0x9F, CHR 0x92, CHR 0xAC] @ '' Ergonomic Summary''"

text \<open>The three validation messages, lines 216, 218 and 220.\<close>

definition openai_key_message :: string where
  "openai_key_message = ''Please provide your OpenAI API key in the sidebar.''"

definition serp_key_message :: string where
  "serp_key_message = ''Please provide your SerpAPI key in the sidebar.''"

definition photo_message :: string where
  "photo_message = ''Please upload a workspace photo to proceed.''"

section \<open>Every way a run can go\<close>

text \<open>One lemma for each exit of \<open>generate_workspace_report\<close>, then the case analysis
  that says there is no other.\<close>

lemmas gwr_unfold =
  generate_workspace_report_def saved_def image_path_of_def run_def recorded_def Let_def
  call1_def call3_def call4_def

lemma gwr_no_image:
  "uploaded_image (prefs m) = None \<Longrightarrow>
   generate_workspace_report w m = (Inl AttributeError, saved w [] m)"
  by (simp add: gwr_unfold)

lemma gwr_no_key:
  "uploaded_image (prefs m) = Some d \<Longrightarrow> openai_api_key (session m) = None \<Longrightarrow>
   generate_workspace_report w m = (Inl AttributeError, saved w d m)"
  by (simp add: gwr_unfold)

lemma gwr_fail1:
  "uploaded_image (prefs m) = Some d \<Longrightarrow> openai_api_key (session m) = Some k \<Longrightarrow>
   respond w (calls m) (call1 w k) = Inl e \<Longrightarrow>
   generate_workspace_report w m = (Inl e, recorded [(call1 w k, Inl e)] (saved w d m))"
  by (simp add: gwr_unfold)

lemma gwr_fail2:
  "uploaded_image (prefs m) = Some d \<Longrightarrow> openai_api_key (session m) = Some k \<Longrightarrow>
   respond w (calls m) (call1 w k) = Inr s1 \<Longrightarrow>
   respond w (calls m @ [(call1 w k, Inr s1)]) (risk_call k s1) = Inl e \<Longrightarrow>
   generate_workspace_report w m =
     (Inl e, recorded [(call1 w k, Inr s1), (risk_call k s1, Inl e)] (saved w d m))"
  by (simp add: gwr_unfold)

lemma gwr_fail3:
  "uploaded_image (prefs m) = Some d \<Longrightarrow> openai_api_key (session m) = Some k \<Longrightarrow>
   respond w (calls m) (call1 w k) = Inr s1 \<Longrightarrow>
   respond w (calls m @ [(call1 w k, Inr s1)]) (risk_call k s1) = Inr s2 \<Longrightarrow>
   respond w (calls m @ [(call1 w k, Inr s1), (risk_call k s1, Inr s2)]) (call3 m k s1) = Inl e \<Longrightarrow>
   generate_workspace_report w m =
     (Inl e, recorded [(call1 w k, Inr s1), (risk_call k s1, Inr s2), (call3 m k s1, Inl e)]
               (saved w d m))"
  by (simp add: gwr_unfold)

lemma gwr_no_serp:
  "uploaded_image (prefs m) = Some d \<Longrightarrow> openai_api_key (session m) = Some k \<Longrightarrow>
   serp_api_key (session m) = None \<Longrightarrow>
   respond w (calls m) (call1 w k) = Inr s1 \<Longrightarrow>
   respond w (calls m @ [(call1 w k, Inr s1)]) (risk_call k s1) = Inr s2 \<Longrightarrow>
   respond w (calls m @ [(call1 w k, Inr s1), (risk_call k s1, Inr s2)]) (call3 m k s1) = Inr s3 \<Longrightarrow>
   generate_workspace_report w m =
     (Inl AttributeError,
      recorded [(call1 w k, Inr s1), (risk_call k s1, Inr s2), (call3 m k s1, Inr s3)]
        (saved w d m))"
  by (simp add: gwr_unfold)

lemma gwr_fail4:
  "uploaded_image (prefs m) = Some d \<Longrightarrow> openai_api_key (session m) = Some k \<Longrightarrow>
   serp_api_key (session m) = Some sk \<Longrightarrow>
   respond w (calls m) (call1 w k) = Inr s1 \<Longrightarrow>
   respond w (calls m @ [(call1 w k, Inr s1)]) (risk_call k s1) = Inr s2 \<Longrightarrow>
   respond w (calls m @ [(call1 w k, Inr s1), (risk_call k s1, Inr s2)]) (call3 m k s1) = Inr s3 \<Longrightarrow>
   respond w (calls m @ [(call1 w k, Inr s1), (risk_call k s1, Inr s2), (call3 m k s1, Inr s3)])
     (call4 m k sk s1) = Inl e \<Longrightarrow>
   generate_workspace_report w m =
     (Inl e,
      recorded [(call1 w k, Inr s1), (risk_call k s1, Inr s2), (call3 m k s1, Inr s3),
                (call4 m k sk s1, Inl e)]
        (saved w d m))"
  by (simp add: gwr_unfold)

lemma gwr_finished:
  "uploaded_image (prefs m) = Some d \<Longrightarrow> openai_api_key (session m) = Some k \<Longrightarrow>
   serp_api_key (session m) = Some sk \<Longrightarrow>
   respond w (calls m) (call1 w k) = Inr s1 \<Longrightarrow>
   respond w (calls m @ [(call1 w k, Inr s1)]) (risk_call k s1) = Inr s2 \<Longrightarrow>
   respond w (calls m @ [(call1 w k, Inr s1), (risk_call k s1, Inr s2)]) (call3 m k s1) = Inr s3 \<Longrightarrow>
   respond w (calls m @ [(call1 w k, Inr s1), (risk_call k s1, Inr s2), (call3 m k s1, Inr s3)])
     (call4 m k sk s1) = Inr s4 \<Longrightarrow>
   generate_workspace_report w m =
     (Inr (final_report s1 s2 s3 s4),
      recorded [(call1 w k, Inr s1), (risk_call k s1, Inr s2), (call3 m k s1, Inr s3),
                (call4 m k sk s1, Inr s4)]
        (saved w d m))"
  by (simp add: gwr_unfold)


lemma gwr_cases [case_names no_image no_key fail1 fail2 fail3 no_serp fail4 finished]:
  obtains
    (no_image) "uploaded_image (prefs m) = None"
      "generate_workspace_report w m = (Inl AttributeError, saved w [] m)"
  | (no_key) d where "uploaded_image (prefs m) = Some d" "openai_api_key (session m) = None"
      "generate_workspace_report w m = (Inl AttributeError, saved w d m)"
  | (fail1) d k e where "uploaded_image (prefs m) = Some d" "openai_api_key (session m) = Some k"
      "respond w (calls m) (call1 w k) = Inl e"
      "generate_workspace_report w m = (Inl e, recorded [(call1 w k, Inl e)] (saved w d m))"
  | (fail2) d k s1 e where "uploaded_image (prefs m) = Some d" "openai_api_key (session m) = Some k"
      "respond w (calls m) (call1 w k) = Inr s1"
      "respond w (calls m @ [(call1 w k, Inr s1)]) (risk_call k s1) = Inl e"
      "generate_workspace_report w m =
         (Inl e, recorded [(call1 w k, Inr s1), (risk_call k s1, Inl e)] (saved w d m))"
  | (fail3) d k s1 s2 e where "uploaded_image (prefs m) = Some d" "openai_api_key (session m) = Some k"
      "respond w (calls m) (call1 w k) = Inr s1"
      "respond w (calls m @ [(call1 w k, Inr s1)]) (risk_call k s1) = Inr s2"
      "respond w (calls m @ [(call1 w k, Inr s1), (risk_call k s1, Inr s2)]) (call3 m k s1) = Inl e"
      "generate_workspace_report w m =
         (Inl e, recorded [(call1 w k, Inr s1), (risk_call k s1, Inr s2), (call3 m k s1, Inl e)]
                   (saved w d m))"
  | (no_serp) d k s1 s2 s3 where "uploaded_image (prefs m) = Some d" "openai_api_key (session m) = Some k"
      "serp_api_key (session m) = None"
      "respond w (calls m) (call1 w k) = Inr s1"
      "respond w (calls m @ [(call1 w k, Inr s1)]) (risk_call k s1) = Inr s2"
      "respond w (calls m @ [(call1 w k, Inr s1), (risk_call k s1, Inr s2)]) (call3 m k s1) = Inr s3"
      "generate_workspace_report w m =
         (Inl AttributeError,
          recorded [(call1 w k, Inr s1), (risk_call k s1, Inr s2), (call3 m k s1, Inr s3)]
            (saved w d m))"
  | (fail4) d k sk s1 s2 s3 e where "uploaded_image (prefs m) = Some d" "openai_api_key (session m) = Some k"
      "serp_api_key (session m) = Some sk"
      "respond w (calls m) (call1 w k) = Inr s1"
      "respond w (calls m @ [(call1 w k, Inr s1)]) (risk_call k s1) = Inr s2"
      "respond w (calls m @ [(call1 w k, Inr s1), (risk_call k s1, Inr s2)]) (call3 m k s1) = Inr s3"
      "respond w (calls m @ [(call1 w k, Inr s1), (risk_call k s1, Inr s2), (call3 m k s1, Inr s3)])
         (call4 m k sk s1) = Inl e"
      "generate_workspace_report w m =
         (Inl e,
          recorded [(call1 w k, Inr s1), (risk_call k s1, Inr s2), (call3 m k s1, Inr s3),
                    (call4 m k sk s1, Inl e)]
            (saved w d m))"
  | (finished) d k sk s1 s2 s3 s4 where "uploaded_image (prefs m) = Some d" "openai_api_key (session m) = Some k"
      "serp_api_key (session m) = Some sk"
      "respond w (calls m) (call1 w k) = Inr s1"
      "respond w (calls m @ [(call1 w k, Inr s1)]) (risk_call k s1) = Inr s2"
      "respond w (calls m @ [(call1 w k, Inr s1), (risk_call k s1, Inr s2)]) (call3 m k s1) = Inr s3"
      "respond w (calls m @ [(call1 w k, Inr s1), (risk_call k s1, Inr s2), (call3 m k s1, Inr s3)])
         (call4 m k sk s1) = Inr s4"
      "generate_workspace_report w m =
         (Inr (final_report s1 s2 s3 s4),
          recorded [(call1 w k, Inr s1), (risk_call k s1, Inr s2), (call3 m k s1, Inr s3),
                    (call4 m k sk s1, Inr s4)]
            (saved w d m))"
proof (cases "uploaded_image (prefs m)")
  case None
  then show thesis using no_image gwr_no_image by blast
next
  case img: (Some d)
  show thesis
  proof (cases "openai_api_key (session m)")
    case None
    with img show thesis using no_key gwr_no_key by blast
  next
    case key: (Some k)
    show thesis
    proof (cases "respond w (calls m) (call1 w k)")
      case (Inl e)
      from gwr_fail1 [OF img key Inl] show thesis by (rule fail1 [OF img key Inl])
    next
      case r1: (Inr s1)
      show thesis
      proof (cases "respond w (calls m @ [(call1 w k, Inr s1)]) (risk_call k s1)")
        case (Inl e)
        from gwr_fail2 [OF img key r1 Inl] show thesis by (rule fail2 [OF img key r1 Inl])
      next
        case r2: (Inr s2)
        show thesis
        proof (cases "respond w (calls m @ [(call1 w k, Inr s1), (risk_call k s1, Inr s2)])
                        (call3 m k s1)")
          case (Inl e)
          from gwr_fail3 [OF img key r1 r2 Inl] show thesis by (rule fail3 [OF img key r1 r2 Inl])
        next
          case r3: (Inr s3)
          show thesis
          proof (cases "serp_api_key (session m)")
            case None
            from gwr_no_serp [OF img key None r1 r2 r3] show thesis
              by (rule no_serp [OF img key None r1 r2 r3])
          next
            case serp: (Some sk)
            show thesis
            proof (cases "respond w (calls m @ [(call1 w k, Inr s1), (risk_call k s1, Inr s2),
                                      (call3 m k s1, Inr s3)]) (call4 m k sk s1)")
              case (Inl e)
              from gwr_fail4 [OF img key serp r1 r2 r3 Inl] show thesis
                by (rule fail4 [OF img key serp r1 r2 r3 Inl])
            next
              case r4: (Inr s4)
              from gwr_finished [OF img key serp r1 r2 r3 r4] show thesis
                by (rule finished [OF img key serp r1 r2 r3 r4])
            qed
          qed
        qed
      qed
    qed
  qed
qed

lemma prefs_saved [simp]: "prefs (saved w d m) = prefs m"
  by (simp add: saved_def)

lemma prefs_recorded [simp]: "prefs (recorded is m) = prefs m"
  by (simp add: recorded_def)

lemma calls_saved [simp]: "calls (saved w d m) = calls m"
  by (simp add: saved_def)

lemma calls_recorded [simp]: "calls (recorded is m) = calls m @ is"
  by (simp add: recorded_def)

lemma files_saved [simp]: "files (saved w d m) = files m @ [(image_path_of w, d)]"
  by (simp add: saved_def)

lemma files_recorded [simp]: "files (recorded is m) = files m"
  by (simp add: recorded_def)


section \<open>Auxiliary facts\<close>

lemmas call_defs = call1_def call3_def call4_def posture_call_def risk_call_def fix_call_def
  product_call_def

lemma stub_run:
  assumes "uploaded_image (prefs m) = Some img" "openai_api_key (session m) = Some k"
    "serp_api_key (session m) = Some sk"
  shows "generate_workspace_report (stub_world a b c d) m =
     (Inr (final_report a b c d),
      recorded [(call1 (stub_world a b c d) k, Inr a), (risk_call k a, Inr b),
                (call3 m k a, Inr c), (call4 m k sk a, Inr d)]
        (saved (stub_world a b c d) img m))"
  by (rule gwr_finished [OF assms]) (simp_all add: stub_world_def stub_respond_def call_defs)

lemma stub_machine_simps [simp]:
  "uploaded_image (prefs stub_machine) = Some [0xFF, 0xD8, 0xFF]"
  "openai_api_key (session stub_machine) = Some ''sk-test''"
  "serp_api_key (session stub_machine) = Some ''serp-test''"
  "focus_area (prefs stub_machine) = ''Posture Correction''"
  "improvement_goal (prefs stub_machine) = ''Reduce Strain''"
  "calls stub_machine = []" "files stub_machine = []" "ui stub_machine = []"
  by (simp_all add: stub_machine_def stub_session_def stub_prefs_def)

lemmas stub_machine_run = stub_run [of stub_machine, OF stub_machine_simps(1-3)]

lemma stub_invocations:
  "invocations (stub_world a b c d) stub_machine =
     [(posture_call ''sk-test'' ''/tmp/tmpk3x9.jpg'', Inr a),
      (risk_call ''sk-test'' a, Inr b),
      (fix_call ''sk-test'' (fix_prompt a ''Posture Correction'' ''Reduce Strain''), Inr c),
      (product_call ''sk-test'' ''serp-test'' (fix_prompt a ''Posture Correction'' ''Reduce Strain''), Inr d)]"
  using stub_machine_run [of a b c d]
  by (simp add: invocations_def call1_def call3_def call4_def image_path_of_def stub_world_def)

lemma final_report_layout:
  "final_report s1 s2 s3 s4 =
     report_header @ s1 @ section_separator @ s2 @ section_separator
       @ s3 @ section_separator @ s4 @ section_separator @ summary_comment"
  by (simp add: final_report_def report_header_def section_separator_def)

lemma ui_saved [simp]: "ui (saved w d m) = ui m"
  by (simp add: saved_def)

lemma ui_recorded [simp]: "ui (recorded is m) = ui m"
  by (simp add: recorded_def)

lemma session_saved [simp]: "session (saved w d m) = session m"
  by (simp add: saved_def)

lemma session_recorded [simp]: "session (recorded is m) = session m"
  by (simp add: recorded_def)

lemma invocations_cases [case_names none one two three four finished]:
  obtains
    (none) e where "invocations w m = []" "fst (generate_workspace_report w m) = Inl e"
  | (one) k e where "openai_api_key (session m) = Some k"
      "invocations w m = [(call1 w k, Inl e)]" "fst (generate_workspace_report w m) = Inl e"
  | (two) k s1 e where "openai_api_key (session m) = Some k"
      "invocations w m = [(call1 w k, Inr s1), (risk_call k s1, Inl e)]"
      "fst (generate_workspace_report w m) = Inl e"
  | (three) k s1 s2 r3 e where "openai_api_key (session m) = Some k"
      "invocations w m = [(call1 w k, Inr s1), (risk_call k s1, Inr s2), (call3 m k s1, r3)]"
      "fst (generate_workspace_report w m) = Inl e"
  | (four) k sk s1 s2 s3 e where "openai_api_key (session m) = Some k"
      "serp_api_key (session m) = Some sk"
      "invocations w m = [(call1 w k, Inr s1), (risk_call k s1, Inr s2), (call3 m k s1, Inr s3),
                          (call4 m k sk s1, Inl e)]"
      "fst (generate_workspace_report w m) = Inl e"
  | (finished) k sk s1 s2 s3 s4 where "openai_api_key (session m) = Some k"
      "serp_api_key (session m) = Some sk"
      "invocations w m = [(call1 w k, Inr s1), (risk_call k s1, Inr s2), (call3 m k s1, Inr s3),
                          (call4 m k sk s1, Inr s4)]"
      "fst (generate_workspace_report w m) = Inr (final_report s1 s2 s3 s4)"
proof (rule gwr_cases [where m = m and w = w])
  assume "generate_workspace_report w m = (Inl AttributeError, saved w [] m)"
  then show thesis by (intro none) (simp_all add: invocations_def)
next
  fix d
  assume "generate_workspace_report w m = (Inl AttributeError, saved w d m)"
  then show thesis by (intro none) (simp_all add: invocations_def)
next
  fix d k e
  assume "openai_api_key (session m) = Some k"
    "generate_workspace_report w m = (Inl e, recorded [(call1 w k, Inl e)] (saved w d m))"
  then show thesis by (intro one) (simp_all add: invocations_def)
next
  fix d k s1 e
  assume "openai_api_key (session m) = Some k"
    "generate_workspace_report w m =
       (Inl e, recorded [(call1 w k, Inr s1), (risk_call k s1, Inl e)] (saved w d m))"
  then show thesis by (intro two) (simp_all add: invocations_def)
next
  fix d k s1 s2 e
  assume "openai_api_key (session m) = Some k"
    "generate_workspace_report w m =
       (Inl e, recorded [(call1 w k, Inr s1), (risk_call k s1, Inr s2), (call3 m k s1, Inl e)]
                 (saved w d m))"
  then show thesis by (intro three) (simp_all add: invocations_def)
next
  fix d k s1 s2 s3
  assume "openai_api_key (session m) = Some k"
    "generate_workspace_report w m =
       (Inl AttributeError,
        recorded [(call1 w k, Inr s1), (risk_call k s1, Inr s2), (call3 m k s1, Inr s3)]
          (saved w d m))"
  then show thesis by (intro three) (simp_all add: invocations_def)
next
  fix d k sk s1 s2 s3 e
  assume "openai_api_key (session m) = Some k" "serp_api_key (session m) = Some sk"
    "generate_workspace_report w m =
       (Inl e,
        recorded [(call1 w k, Inr s1), (risk_call k s1, Inr s2), (call3 m k s1, Inr s3),
                  (call4 m k sk s1, Inl e)]
          (saved w d m))"
  then show thesis by (intro four) (simp_all add: invocations_def)
next
  fix d k sk s1 s2 s3 s4
  assume "openai_api_key (session m) = Some k" "serp_api_key (session m) = Some sk"
    "generate_workspace_report w m =
       (Inr (final_report s1 s2 s3 s4),
        recorded [(call1 w k, Inr s1), (risk_call k s1, Inr s2), (call3 m k s1, Inr s3),
                  (call4 m k sk s1, Inr s4)]
          (saved w d m))"
  then show thesis by (intro finished) (simp_all add: invocations_def)
qed

lemma reach_stage3:
  assumes "invocations w m = (c1, r1) # (c2, r2) # (c3, r3) # rest"
  shows "\<exists>k s1 s2. openai_api_key (session m) = Some k \<and> r1 = Inr s1 \<and> r2 = Inr s2 \<and>
           c1 = call1 w k \<and> c2 = risk_call k s1 \<and> c3 = call3 m k s1"
  by (rule invocations_cases [where m = m and w = w]) (use assms in auto)


lemma calls_extend: "calls (snd (generate_workspace_report w m)) = calls m @ invocations w m"
  by (rule gwr_cases [where m = m and w = w]) (simp_all add: invocations_def)

lemma outputs_of_report:
  assumes "fst (generate_workspace_report w m) = Inr report"
  shows "\<exists>s1 s2 s3 s4. map snd (invocations w m) = [Inr s1, Inr s2, Inr s3, Inr s4] \<and>
           report = final_report s1 s2 s3 s4"
  by (rule invocations_cases [where m = m and w = w]) (use assms in auto)

lemma report_of_outputs:
  assumes "map snd (invocations w m) = [Inr s1, Inr s2, Inr s3, Inr s4]"
  shows "fst (generate_workspace_report w m) = Inr (final_report s1 s2 s3 s4)"
  by (rule invocations_cases [where m = m and w = w]) (use assms in auto)

lemma stub_outputs:
  "map snd (invocations (stub_world a b c d) stub_machine) = [Inr a, Inr b, Inr c, Inr d]"
  by (simp add: stub_invocations)

lemma alt_machine_simps [simp]:
  "uploaded_image (prefs alt_machine) = Some [0x89, 0x50]"
  "openai_api_key (session alt_machine) = Some ''sk-other''"
  "serp_api_key (session alt_machine) = Some ''serp-other''"
  "focus_area (prefs alt_machine) = ''Desk Organization''"
  "improvement_goal (prefs alt_machine) = ''Boost Productivity''"
  "calls alt_machine = []" "files alt_machine = []" "ui alt_machine = []"
  by (simp_all add: alt_machine_def)

lemmas alt_machine_run = stub_run [of alt_machine, OF alt_machine_simps(1-3)]

lemma alt_outputs:
  "map snd (invocations (stub_world a b c d) alt_machine) = [Inr a, Inr b, Inr c, Inr d]"
  using alt_machine_run [of a b c d] by (simp add: invocations_def)

lemma gwr_ui: "ui (snd (generate_workspace_report w m)) = ui m"
  by (rule gwr_cases [where m = m and w = w]) simp_all

lemma gwr_files:
  "uploaded_image (prefs m) = Some d \<Longrightarrow>
   files (snd (generate_workspace_report w m)) = files m @ [(tmp_stem w @ ''.jpg'', d)]"
  by (rule gwr_cases [where m = m and w = w]) (simp_all add: image_path_of_def)

lemma on_submit_runs:
  assumes "openai_api_key (session m) = Some k" "serp_api_key (session m) = Some sk"
    "uploaded_image (prefs m) = Some d"
  shows "ui (snd (on_submit w m)) = ui (snd (generate_workspace_report w m))"
    and "calls (snd (on_submit w m)) = calls (snd (generate_workspace_report w m))"
    and "files (snd (on_submit w m)) = files (snd (generate_workspace_report w m))"
  using assms by (simp_all add: on_submit_def split: prod.splits sum.splits)

lemma blank_machine_simps [simp]:
  "openai_api_key (session blank_machine) = None"
  "serp_api_key (session blank_machine) = None"
  "uploaded_image (prefs blank_machine) = None"
  "ui blank_machine = []" "calls blank_machine = []" "files blank_machine = []"
  by (simp_all add: blank_machine_def)

lemma key_only_machine_simps [simp]:
  "openai_api_key (session key_only_machine) = Some ''sk-test''"
  "serp_api_key (session key_only_machine) = None"
  "uploaded_image (prefs key_only_machine) = None"
  "ui key_only_machine = []" "calls key_only_machine = []" "files key_only_machine = []"
  by (simp_all add: key_only_machine_def blank_machine_def)

lemma no_photo_machine_simps [simp]:
  "openai_api_key (session no_photo_machine) = Some ''sk-test''"
  "serp_api_key (session no_photo_machine) = Some ''serp-test''"
  "uploaded_image (prefs no_photo_machine) = None"
  "ui no_photo_machine = []" "calls no_photo_machine = []" "files no_photo_machine = []"
  by (simp_all add: no_photo_machine_def stub_machine_def stub_session_def stub_prefs_def)

lemma tmp_stem_stub_world [simp]: "tmp_stem (stub_world a b c d) = ''/tmp/tmpk3x9''"
  by (simp add: stub_world_def)




lemma stub_world_never_fails [simp]: "respond (stub_world a b c d) h call \<noteq> Inl e"
  by (simp add: stub_world_def stub_respond_def)

section \<open>The claims\<close>

text \<open>
  Claim C4. The fix-recommendation stage (agent 3) is run on a prompt made of the
  issue-detection output and the two preference values, and of nothing else; the
  risk-evaluation output is not part of its input.

  Whenever a run gets as far as its third invocation, that call is the fix advisor's,
  with no image and no search tool, and its message is the first answer followed by
  the focus area and the improvement goal. The second answer does not occur in it: a
  run in another world, with the same first answer and any second answer, sends the
  same third call.
\<close>

theorem fix_prompt_inputs:
  assumes "invocations w m = (c1, r1) # (c2, r2) # (c3, r3) # rest"
  shows "(\<exists>k s1. openai_api_key (session m) = Some k \<and> r1 = Inr s1 \<and>
            c3 = \<lparr>agent = FixAdvisor, model_api_key = k, search_api_key = None,
                  message = s1 @ ''\<newline>\<newline>Focus: '' @ focus_area (prefs m)
                            @ ''\<newline>Goal: '' @ improvement_goal (prefs m),
                  images = []\<rparr>)
         \<and> (\<forall>w' c1' c2' r2' c3' r3' rest'.
               invocations w' m = (c1', r1) # (c2', r2') # (c3', r3') # rest' \<longrightarrow> c3' = c3)"
proof (intro conjI allI impI)
  from reach_stage3 [OF assms] obtain k s1 where
    *: "openai_api_key (session m) = Some k" "r1 = Inr s1" "c3 = call3 m k s1"
    by blast
  then show "\<exists>k s1. openai_api_key (session m) = Some k \<and> r1 = Inr s1 \<and>
            c3 = \<lparr>agent = FixAdvisor, model_api_key = k, search_api_key = None,
                  message = s1 @ ''\<newline>\<newline>Focus: '' @ focus_area (prefs m)
                            @ ''\<newline>Goal: '' @ improvement_goal (prefs m),
                  images = []\<rparr>"
    by (simp add: call_defs fix_prompt_def)
  fix w' c1' c2' r2' c3' r3' rest'
  assume "invocations w' m = (c1', r1) # (c2', r2') # (c3', r3') # rest'"
  from reach_stage3 [OF this] obtain k' s1' where
    "openai_api_key (session m) = Some k'" "r1 = Inr s1'" "c3' = call3 m k' s1'"
    by blast
  with * show "c3' = c3" by simp
qed

theorem fix_prompt_inputs_witness:
  "invocations (stub_world ''A'' ''B'' ''C'' ''D'') stub_machine =
     (posture_call ''sk-test'' ''/tmp/tmpk3x9.jpg'', Inr ''A'') #
     (risk_call ''sk-test'' ''A'', Inr ''B'') #
     (fix_call ''sk-test'' (fix_prompt ''A'' ''Posture Correction'' ''Reduce Strain''), Inr ''C'') #
     [(product_call ''sk-test'' ''serp-test'' (fix_prompt ''A'' ''Posture Correction'' ''Reduce Strain''), Inr ''D'')]
   \<and> invocations (stub_world ''A'' ''another risk text'' ''C'' ''D'') stub_machine =
     (posture_call ''sk-test'' ''/tmp/tmpk3x9.jpg'', Inr ''A'') #
     (risk_call ''sk-test'' ''A'', Inr ''another risk text'') #
     (fix_call ''sk-test'' (fix_prompt ''A'' ''Posture Correction'' ''Reduce Strain''), Inr ''C'') #
     [(product_call ''sk-test'' ''serp-test'' (fix_prompt ''A'' ''Posture Correction'' ''Reduce Strain''), Inr ''D'')]
   \<and> fix_call ''sk-test'' (fix_prompt ''A'' ''Posture Correction'' ''Reduce Strain'') =
       \<lparr>agent = FixAdvisor, model_api_key = ''sk-test'', search_api_key = None,
        message = ''A\<newline>\<newline>Focus: Posture Correction\<newline>Goal: Reduce Strain'', images = []\<rparr>"
  using fix_prompt_inputs [OF stub_invocations [of "''A''" "''B''" "''C''" "''D''"]]
  by (simp add: stub_invocations)



text \<open>
  Claim C2. For every four stage outputs \<open>s1\<close> .. \<open>s4\<close> the assembled report is the
  header, then \<open>s1\<close>, \<open>s2\<close>, \<open>s3\<close>, \<open>s4\<close> each followed by the separator, then the
  constant closing remark, which begins with the heading "Ergonomic Summary"; with the
  outputs A, B, C, D the report is exactly the text of the specification's example.

  The first part is stated both ways: a run whose four invocations answered \<open>s1\<close> ..
  \<open>s4\<close> returns that report, and every report that is returned has this form for the
  four answers of its run. The order of the parts is the order of the concatenation.
\<close>

theorem report_layout:
  "(map snd (invocations w m) = [Inr s1, Inr s2, Inr s3, Inr s4] \<longrightarrow>
      fst (generate_workspace_report w m) =
        Inr (report_header @ s1 @ section_separator @ s2 @ section_separator
             @ s3 @ section_separator @ s4 @ section_separator @ summary_comment))
   \<and> (\<forall>report. fst (generate_workspace_report w m) = Inr report \<longrightarrow>
        (\<exists>t1 t2 t3 t4. map snd (invocations w m) = [Inr t1, Inr t2, Inr t3, Inr t4] \<and>
           report = report_header @ t1 @ section_separator @ t2 @ section_separator
             @ t3 @ section_separator @ t4 @ section_separator @ summary_comment))
   \<and> prefix closing_heading summary_comment
   \<and> fst (generate_workspace_report (stub_world ''A'' ''B'' ''C'' ''D'') stub_machine) =
       Inr (''## '' @ [CHR 0xF0, CHR 0x9F, CHR 0xAA, CHR 0x91]
            @ '' Workspace Optimization Report\<newline>\<newline>A\<newline>\<newline>---\<newline>\<newline>B\<newline>\<newline>---\<newline>\<newline>C\<newline>\<newline>---\<newline>\<newline>D\<newline>\<newline>---\<newline>\<newline>### ''
            @ [CHR 0xF0, CHR 0x9F, CHR 0x92, CHR 0xAC] @ '' Ergonomic Summary\<newline>\<newline>> ''
            @ [CHR 0xE2, CHR 0x80, CHR 0x9C]
            @ ''Your workspace has great potential. With just a few adjustments, you can improve posture, reduce fatigue, and make your setup truly ergonomic.''
            @ [CHR 0xE2, CHR 0x80, CHR 0x9D] @ ''\<newline>'')"
proof (intro conjI allI impI)
  assume "map snd (invocations w m) = [Inr s1, Inr s2, Inr s3, Inr s4]"
  from report_of_outputs [OF this]
  show "fst (generate_workspace_report w m) =
        Inr (report_header @ s1 @ section_separator @ s2 @ section_separator
             @ s3 @ section_separator @ s4 @ section_separator @ summary_comment)"
    by (simp only: final_report_layout)
next
  fix report
  assume "fst (generate_workspace_report w m) = Inr report"
  from outputs_of_report [OF this]
  show "\<exists>t1 t2 t3 t4. map snd (invocations w m) = [Inr t1, Inr t2, Inr t3, Inr t4] \<and>
           report = report_header @ t1 @ section_separator @ t2 @ section_separator
             @ t3 @ section_separator @ t4 @ section_separator @ summary_comment"
    by (simp only: final_report_layout)
next
  show "prefix closing_heading summary_comment"
    by (simp add: closing_heading_def summary_comment_def)
next
  have "final_report ''A'' ''B'' ''C'' ''D'' =
       ''## '' @ [CHR 0xF0, CHR 0x9F, CHR 0xAA, CHR 0x91]
            @ '' Workspace Optimization Report\<newline>\<newline>A\<newline>\<newline>---\<newline>\<newline>B\<newline>\<newline>---\<newline>\<newline>C\<newline>\<newline>---\<newline>\<newline>D\<newline>\<newline>---\<newline>\<newline>### ''
            @ [CHR 0xF0, CHR 0x9F, CHR 0x92, CHR 0xAC] @ '' Ergonomic Summary\<newline>\<newline>> ''
            @ [CHR 0xE2, CHR 0x80, CHR 0x9C]
            @ ''Your workspace has great potential. With just a few adjustments, you can improve posture, reduce fatigue, and make your setup truly ergonomic.''
            @ [CHR 0xE2, CHR 0x80, CHR 0x9D] @ ''\<newline>''"
    by (simp add: final_report_def summary_comment_def)
  moreover have "fst (generate_workspace_report (stub_world ''A'' ''B'' ''C'' ''D'') stub_machine)
      = Inr (final_report ''A'' ''B'' ''C'' ''D'')"
    by (simp only: stub_machine_run fst_conv)
  ultimately show "fst (generate_workspace_report (stub_world ''A'' ''B'' ''C'' ''D'') stub_machine) =
       Inr (''## '' @ [CHR 0xF0, CHR 0x9F, CHR 0xAA, CHR 0x91]
            @ '' Workspace Optimization Report\<newline>\<newline>A\<newline>\<newline>---\<newline>\<newline>B\<newline>\<newline>---\<newline>\<newline>C\<newline>\<newline>---\<newline>\<newline>D\<newline>\<newline>---\<newline>\<newline>### ''
            @ [CHR 0xF0, CHR 0x9F, CHR 0x92, CHR 0xAC] @ '' Ergonomic Summary\<newline>\<newline>> ''
            @ [CHR 0xE2, CHR 0x80, CHR 0x9C]
            @ ''Your workspace has great potential. With just a few adjustments, you can improve posture, reduce fatigue, and make your setup truly ergonomic.''
            @ [CHR 0xE2, CHR 0x80, CHR 0x9D] @ ''\<newline>'')"
    by (simp only:)
qed

theorem report_layout_witness:
  "map snd (invocations (stub_world ''A'' ''B'' ''C'' ''D'') stub_machine)
     = [Inr ''A'', Inr ''B'', Inr ''C'', Inr ''D''] \<and>
   fst (generate_workspace_report (stub_world ''A'' ''B'' ''C'' ''D'') stub_machine) =
     Inr (report_header @ ''A'' @ section_separator @ ''B'' @ section_separator
          @ ''C'' @ section_separator @ ''D'' @ section_separator @ summary_comment)"
proof -
  have h: "map snd (invocations (stub_world ''A'' ''B'' ''C'' ''D'') stub_machine)
     = [Inr ''A'', Inr ''B'', Inr ''C'', Inr ''D'']"
    by (rule stub_outputs)
  from report_layout [of "stub_world ''A'' ''B'' ''C'' ''D''" stub_machine "''A''" "''B''" "''C''" "''D''"]
  have "fst (generate_workspace_report (stub_world ''A'' ''B'' ''C'' ''D'') stub_machine) =
     Inr (report_header @ ''A'' @ section_separator @ ''B'' @ section_separator
          @ ''C'' @ section_separator @ ''D'' @ section_separator @ summary_comment)"
    using h by blast
  with h show ?thesis by (rule conjI)
qed

text \<open>
  Claim C5. Report assembly is deterministic: two executions with equal stage outputs
  return equal reports. Nothing else enters the report: the two runs may differ in the
  world, the keys, the photo, the temporary file and even the preferences.
\<close>

theorem assembly_deterministic:
  assumes "fst (generate_workspace_report w m) = Inr report"
    and "fst (generate_workspace_report w' m') = Inr report'"
    and "map snd (invocations w m) = map snd (invocations w' m')"
  shows "report = report'"
proof -
  from outputs_of_report [OF assms(1)] obtain s1 s2 s3 s4 where
    a: "map snd (invocations w m) = [Inr s1, Inr s2, Inr s3, Inr s4]"
    and r: "report = final_report s1 s2 s3 s4"
    by (elim exE conjE)
  from outputs_of_report [OF assms(2)] obtain t1 t2 t3 t4 where
    b: "map snd (invocations w' m') = [Inr t1, Inr t2, Inr t3, Inr t4]"
    and r': "report' = final_report t1 t2 t3 t4"
    by (elim exE conjE)
  from a b assms(3) have "s1 = t1" "s2 = t2" "s3 = t3" "s4 = t4"
    by simp_all
  with r r' show ?thesis by (simp only:)
qed

theorem assembly_deterministic_witness:
  "fst (generate_workspace_report (stub_world ''A'' ''B'' ''C'' ''D'') stub_machine)
     = Inr (final_report ''A'' ''B'' ''C'' ''D'')
   \<and> fst (generate_workspace_report (stub_world ''A'' ''B'' ''C'' ''D'') alt_machine)
     = Inr (final_report ''A'' ''B'' ''C'' ''D'')
   \<and> map snd (invocations (stub_world ''A'' ''B'' ''C'' ''D'') stub_machine)
     = map snd (invocations (stub_world ''A'' ''B'' ''C'' ''D'') alt_machine)
   \<and> focus_area (prefs stub_machine) \<noteq> focus_area (prefs alt_machine)"
proof -
  have 1: "fst (generate_workspace_report (stub_world ''A'' ''B'' ''C'' ''D'') stub_machine)
     = Inr (final_report ''A'' ''B'' ''C'' ''D'')"
    by (simp only: stub_machine_run fst_conv)
  have 2: "fst (generate_workspace_report (stub_world ''A'' ''B'' ''C'' ''D'') alt_machine)
     = Inr (final_report ''A'' ''B'' ''C'' ''D'')"
    by (simp only: alt_machine_run fst_conv)
  have 3: "map snd (invocations (stub_world ''A'' ''B'' ''C'' ''D'') stub_machine)
     = map snd (invocations (stub_world ''A'' ''B'' ''C'' ''D'') alt_machine)"
    by (simp only: stub_outputs alt_outputs)
  have 4: "focus_area (prefs stub_machine) \<noteq> focus_area (prefs alt_machine)"
    by simp
  from assembly_deterministic [OF 1 2 3] 1 2 3 4 show ?thesis
    by (intro conjI)
qed




text \<open>
  Claim C7. \<open>generate_workspace_report\<close> only reads the preferences: the record after
  the run, whether it returned or raised, is the record that was passed in.
\<close>

theorem preferences_unchanged: "prefs (snd (generate_workspace_report w m)) = prefs m"
  by (rule gwr_cases [where m = m and w = w]) simp_all

text \<open>
  Claim C9. What is supplied to agents 1 and 2 does not depend on the focus area and the
  improvement goal: two runs in the same world that differ only in these two fields make
  the same first two invocations (the same calls, hence the same answers), and write the
  same photo to the same temporary file.
\<close>

theorem early_stages_ignore_preferences:
  "take 2 (invocations w (m\<lparr>prefs := (prefs m)\<lparr>focus_area := f, improvement_goal := g\<rparr>\<rparr>))
     = take 2 (invocations w m) \<and>
   files (snd (generate_workspace_report w
            (m\<lparr>prefs := (prefs m)\<lparr>focus_area := f, improvement_goal := g\<rparr>\<rparr>)))
     = files (snd (generate_workspace_report w m))"
  apply (rule gwr_cases [where m = m and w = w])
  apply (rule gwr_cases
           [where m = "m\<lparr>prefs := (prefs m)\<lparr>focus_area := f, improvement_goal := g\<rparr>\<rparr>" and w = w];
         simp add: invocations_def)+
  done

text \<open>
  Claim C1, as the code has it. The issue-detection output, the first answer of a run,
  is part of the prompt of every later stage: it is the risk evaluator's whole message
  and the beginning of the message shared by the fix advisor and the product finder. The
  product-search stage (agent 4) is run on the fix advisor's prompt, not on its output:
  the message sent to the product finder, like the one sent to the fix advisor, is the
  issue-detection output followed by the focus area and the improvement goal, whatever
  the risk evaluator and the fix advisor answered.
\<close>

theorem issue_section_feeds_later_stages:
  assumes "invocations w m = (c1, Inr s1) # rest"
  shows "(\<forall>inv \<in> set rest. agent (fst inv) = RiskEvaluator \<longrightarrow> message (fst inv) = s1)
       \<and> (\<forall>inv \<in> set rest. agent (fst inv) = FixAdvisor \<longrightarrow>
            message (fst inv) =
              s1 @ ''\<newline>\<newline>Focus: '' @ focus_area (prefs m)
                 @ ''\<newline>Goal: '' @ improvement_goal (prefs m))
       \<and> (\<forall>inv \<in> set rest. agent (fst inv) = ProductFinder \<longrightarrow>
            message (fst inv) =
              s1 @ ''\<newline>\<newline>Focus: '' @ focus_area (prefs m)
                 @ ''\<newline>Goal: '' @ improvement_goal (prefs m))
       \<and> (\<forall>inv \<in> set rest. agent (fst inv) \<noteq> PostureAnalyzer)
       \<and> (\<forall>inv \<in> set rest. prefix s1 (message (fst inv)))"
  by (rule invocations_cases [where m = m and w = w])
     (use assms in \<open>auto simp: call_defs fix_prompt_def\<close>)

theorem issue_section_feeds_later_stages_witness:
  "invocations (stub_world ''ISSUES'' ''RISK'' ''FIX'' ''PRODUCTS'') stub_machine =
     (posture_call ''sk-test'' ''/tmp/tmpk3x9.jpg'', Inr ''ISSUES'') #
     [(risk_call ''sk-test'' ''ISSUES'', Inr ''RISK''),
      (fix_call ''sk-test'' (fix_prompt ''ISSUES'' ''Posture Correction'' ''Reduce Strain''), Inr ''FIX''),
      (product_call ''sk-test'' ''serp-test''
         (fix_prompt ''ISSUES'' ''Posture Correction'' ''Reduce Strain''), Inr ''PRODUCTS'')]
   \<and> message (risk_call ''sk-test'' ''ISSUES'') = ''ISSUES''
   \<and> message (fix_call ''sk-test'' (fix_prompt ''ISSUES'' ''Posture Correction'' ''Reduce Strain''))
       = ''ISSUES\<newline>\<newline>Focus: Posture Correction\<newline>Goal: Reduce Strain''
   \<and> message (product_call ''sk-test'' ''serp-test''
          (fix_prompt ''ISSUES'' ''Posture Correction'' ''Reduce Strain''))
       = ''ISSUES\<newline>\<newline>Focus: Posture Correction\<newline>Goal: Reduce Strain''
   \<and> prefix ''ISSUES''
       (message (product_call ''sk-test'' ''serp-test''
          (fix_prompt ''ISSUES'' ''Posture Correction'' ''Reduce Strain'')))"
  using issue_section_feeds_later_stages
          [OF stub_invocations [of "''ISSUES''" "''RISK''" "''FIX''" "''PRODUCTS''"]]
  by (simp add: stub_invocations product_call_def fix_call_def risk_call_def)

text \<open>
  Claim C1 as it was written says that the prompt of the product finder contains the
  fix advisor's output. With the answers ISSUES, RISK, FIX and PRODUCTS the third
  invocation is the fix advisor's and answers FIX, the fourth is the product finder's,
  and FIX does not occur in its message.
\<close>

theorem product_prompt_lacks_fix_section:
  "snd (invocations (stub_world ''ISSUES'' ''RISK'' ''FIX'' ''PRODUCTS'') stub_machine ! 2)
     = Inr ''FIX''
   \<and> agent (fst (invocations (stub_world ''ISSUES'' ''RISK'' ''FIX'' ''PRODUCTS'') stub_machine ! 2))
     = FixAdvisor
   \<and> agent (fst (invocations (stub_world ''ISSUES'' ''RISK'' ''FIX'' ''PRODUCTS'') stub_machine ! 3))
     = ProductFinder
   \<and> \<not> sublist ''FIX''
        (message (fst (invocations (stub_world ''ISSUES'' ''RISK'' ''FIX'' ''PRODUCTS'')
                         stub_machine ! 3)))"
  by (simp add: stub_invocations fix_call_def product_call_def fix_prompt_def sublist_Cons_right)

text \<open>
  Claim C3. When the submit action fires with the model key, the search key or the
  photo missing, no agent is called and no file is written, \<open>on_submit\<close> ends normally
  and shows exactly one message, one of the three validation messages, and one whose
  condition holds. These three are the only checks: when all three inputs are present no
  message is shown and the pipeline starts (the photo is written to the temporary file
  and the run's invocations are recorded).
\<close>

theorem validation_before_pipeline:
  "(openai_api_key (session m) = None \<or> serp_api_key (session m) = None
      \<or> uploaded_image (prefs m) = None \<longrightarrow>
      (\<exists>msg. on_submit w m = (Inr (), m\<lparr>ui := ui m @ [StError msg]\<rparr>) \<and>
         (msg = openai_key_message \<and> openai_api_key (session m) = None
          \<or> msg = serp_key_message \<and> serp_api_key (session m) = None
          \<or> msg = photo_message \<and> uploaded_image (prefs m) = None))
      \<and> calls (snd (on_submit w m)) = calls m
      \<and> files (snd (on_submit w m)) = files m)
   \<and> (openai_api_key (session m) \<noteq> None \<and> serp_api_key (session m) \<noteq> None
      \<and> uploaded_image (prefs m) \<noteq> None \<longrightarrow>
      ui (snd (on_submit w m)) = ui m
      \<and> calls (snd (on_submit w m)) = calls m @ invocations w m
      \<and> (\<exists>d. uploaded_image (prefs m) = Some d \<and>
            files (snd (on_submit w m)) = files m @ [(tmp_stem w @ ''.jpg'', d)]))"
proof (intro conjI impI)
  assume missing: "openai_api_key (session m) = None \<or> serp_api_key (session m) = None
      \<or> uploaded_image (prefs m) = None"
  then show "\<exists>msg. on_submit w m = (Inr (), m\<lparr>ui := ui m @ [StError msg]\<rparr>) \<and>
         (msg = openai_key_message \<and> openai_api_key (session m) = None
          \<or> msg = serp_key_message \<and> serp_api_key (session m) = None
          \<or> msg = photo_message \<and> uploaded_image (prefs m) = None)"
    by (auto simp: on_submit_def openai_key_message_def serp_key_message_def photo_message_def)
  from missing show "calls (snd (on_submit w m)) = calls m"
    by (auto simp: on_submit_def)
  from missing show "files (snd (on_submit w m)) = files m"
    by (auto simp: on_submit_def)
next
  assume present: "openai_api_key (session m) \<noteq> None \<and> serp_api_key (session m) \<noteq> None
      \<and> uploaded_image (prefs m) \<noteq> None"
  then obtain k sk d where p: "openai_api_key (session m) = Some k"
    "serp_api_key (session m) = Some sk" "uploaded_image (prefs m) = Some d"
    by auto
  note d = p(3)
  show "ui (snd (on_submit w m)) = ui m"
    by (simp only: on_submit_runs(1) [OF p] gwr_ui)
  show "calls (snd (on_submit w m)) = calls m @ invocations w m"
    by (simp only: on_submit_runs(2) [OF p] calls_extend)
  have "files (snd (on_submit w m)) = files m @ [(tmp_stem w @ ''.jpg'', d)]"
    by (simp only: on_submit_runs(3) [OF p] gwr_files [OF d])
  with d show "\<exists>d. uploaded_image (prefs m) = Some d \<and>
            files (snd (on_submit w m)) = files m @ [(tmp_stem w @ ''.jpg'', d)]"
    by blast
qed

theorem validation_before_pipeline_witness:
  "uploaded_image (prefs no_photo_machine) = None
   \<and> on_submit (stub_world ''A'' ''B'' ''C'' ''D'') no_photo_machine
       = (Inr (), no_photo_machine\<lparr>ui := [StError photo_message]\<rparr>)
   \<and> calls (snd (on_submit (stub_world ''A'' ''B'' ''C'' ''D'') no_photo_machine)) = []
   \<and> openai_api_key (session stub_machine) \<noteq> None
   \<and> serp_api_key (session stub_machine) \<noteq> None
   \<and> uploaded_image (prefs stub_machine) \<noteq> None
   \<and> ui (snd (on_submit (stub_world ''A'' ''B'' ''C'' ''D'') stub_machine)) = []
   \<and> map snd (calls (snd (on_submit (stub_world ''A'' ''B'' ''C'' ''D'') stub_machine)))
       = [Inr ''A'', Inr ''B'', Inr ''C'', Inr ''D'']
   \<and> files (snd (on_submit (stub_world ''A'' ''B'' ''C'' ''D'') stub_machine))
       = [(''/tmp/tmpk3x9.jpg'', [0xFF, 0xD8, 0xFF])]"
  using validation_before_pipeline [of no_photo_machine "stub_world ''A'' ''B'' ''C'' ''D''"]
    validation_before_pipeline [of stub_machine "stub_world ''A'' ''B'' ''C'' ''D''"]
  by (simp add: stub_outputs)

text \<open>
  Claim C8. The checks have a fixed precedence: a missing model key is reported whatever
  else is missing; with the model key present a missing search key is reported even when
  the photo is missing too; the missing-photo message is shown only when both keys are
  present (and the photo is missing).
\<close>

theorem validation_precedence:
  "(openai_api_key (session m) = None \<longrightarrow>
      ui (snd (on_submit w m)) = ui m @ [StError openai_key_message])
   \<and> (openai_api_key (session m) \<noteq> None \<and> serp_api_key (session m) = None \<longrightarrow>
      ui (snd (on_submit w m)) = ui m @ [StError serp_key_message])
   \<and> (openai_api_key (session m) \<noteq> None \<and> serp_api_key (session m) \<noteq> None
      \<and> uploaded_image (prefs m) = None \<longrightarrow>
      ui (snd (on_submit w m)) = ui m @ [StError photo_message])
   \<and> (ui (snd (on_submit w m)) = ui m @ [StError photo_message] \<longrightarrow>
      openai_api_key (session m) \<noteq> None \<and> serp_api_key (session m) \<noteq> None
      \<and> uploaded_image (prefs m) = None)"
proof (intro conjI impI)
  assume "openai_api_key (session m) = None"
  then show "ui (snd (on_submit w m)) = ui m @ [StError openai_key_message]"
    by (simp add: on_submit_def openai_key_message_def)
next
  assume "openai_api_key (session m) \<noteq> None \<and> serp_api_key (session m) = None"
  then show "ui (snd (on_submit w m)) = ui m @ [StError serp_key_message]"
    by (simp add: on_submit_def serp_key_message_def)
next
  assume "openai_api_key (session m) \<noteq> None \<and> serp_api_key (session m) \<noteq> None
      \<and> uploaded_image (prefs m) = None"
  then show "ui (snd (on_submit w m)) = ui m @ [StError photo_message]"
    by (simp add: on_submit_def photo_message_def)
next
  assume shown: "ui (snd (on_submit w m)) = ui m @ [StError photo_message]"
  have a: "openai_api_key (session m) = None \<Longrightarrow> ui (snd (on_submit w m)) \<noteq> ui m @ [StError photo_message]"
    by (simp add: on_submit_def photo_message_def)
  have b: "openai_api_key (session m) \<noteq> None \<Longrightarrow> serp_api_key (session m) = None \<Longrightarrow>
      ui (snd (on_submit w m)) \<noteq> ui m @ [StError photo_message]"
    by (simp add: on_submit_def photo_message_def)
  have c: "openai_api_key (session m) = Some k \<Longrightarrow> serp_api_key (session m) = Some sk \<Longrightarrow>
      uploaded_image (prefs m) = Some d \<Longrightarrow> ui (snd (on_submit w m)) = ui m" for k sk d
    by (simp only: on_submit_runs(1) gwr_ui)
  from shown a show "openai_api_key (session m) \<noteq> None" by blast
  from shown a b show "serp_api_key (session m) \<noteq> None" by blast
  from shown a b c show "uploaded_image (prefs m) = None"
    by (cases "openai_api_key (session m)"; cases "serp_api_key (session m)";
        cases "uploaded_image (prefs m)") auto
qed

theorem validation_precedence_witness:
  "openai_api_key (session blank_machine) = None
   \<and> serp_api_key (session blank_machine) = None
   \<and> uploaded_image (prefs blank_machine) = None
   \<and> ui (snd (on_submit (stub_world ''A'' ''B'' ''C'' ''D'') blank_machine))
       = [StError openai_key_message]
   \<and> openai_api_key (session key_only_machine) \<noteq> None
   \<and> serp_api_key (session key_only_machine) = None
   \<and> uploaded_image (prefs key_only_machine) = None
   \<and> ui (snd (on_submit (stub_world ''A'' ''B'' ''C'' ''D'') key_only_machine))
       = [StError serp_key_message]
   \<and> openai_api_key (session no_photo_machine) \<noteq> None
   \<and> serp_api_key (session no_photo_machine) \<noteq> None
   \<and> uploaded_image (prefs no_photo_machine) = None
   \<and> ui (snd (on_submit (stub_world ''A'' ''B'' ''C'' ''D'') no_photo_machine))
       = [StError photo_message]"
  using validation_precedence [of blank_machine "stub_world ''A'' ''B'' ''C'' ''D''"]
    validation_precedence [of key_only_machine "stub_world ''A'' ''B'' ''C'' ''D''"]
    validation_precedence [of no_photo_machine "stub_world ''A'' ''B'' ''C'' ''D''"]
  by simp

end
